theory Spec2Isabelle
  imports Complex_Main "HOL-Library.Sublist"
begin

section \<open>Python strings\<close>

text \<open>
  A Python \<open>str\<close> is a sequence of code points. The model uses \<^typ>\<open>string\<close> and reads an
  Isabelle character as the code point of the same number, so it covers the texts whose
  code points are below 256 (ASCII and Latin-1); this is enough for every word of the
  lexicons (the accented letters of the Spanish words are U+00E1, U+00ED and U+00F3).
  Floats are idealised as reals.
\<close>

definition lower_char :: "char \<Rightarrow> char" where
  "lower_char c =
     (let n = (of_char c :: nat)
      in if (65 \<le> n \<and> n \<le> 90) \<or> (192 \<le> n \<and> n \<le> 222 \<and> n \<noteq> 215)
         then char_of (n + 32) else c)"

definition lower :: "string \<Rightarrow> string" where
  "lower s = map lower_char s"

text \<open>\<open>w in t\<close> on strings: \<open>w\<close> occurs in \<open>t\<close> as a contiguous substring.\<close>

fun occurs_in :: "string \<Rightarrow> string \<Rightarrow> bool" where
  "occurs_in w [] = (w = [])"
| "occurs_in w (c # cs) = (prefix w (c # cs) \<or> occurs_in w cs)"

fun string_of_nat :: "nat \<Rightarrow> string" where
  "string_of_nat n =
     (if n < 10 then [char_of (48 + n)]
      else string_of_nat (n div 10) @ [char_of (48 + n mod 10)])"

declare string_of_nat.simps [simp del]

section \<open>Sentiment analyzer\<close>

definition positive_words :: "string list" where
  "positive_words =
    [''love'', ''excellent'', ''amazing'', ''fantastic'', ''wonderful'', ''great'', ''good'',
     ''perfect'', ''best'', ''awesome'', ''brilliant'', ''outstanding'', ''superb'', ''trust'',
     ''confident'', ''happy'', ''thrilled'', ''delighted'', ''impressed'', ''satisfied'',
     ''encanta'', ''excelente'', ''perfecto'', ''increible'', ''genial'', ''bueno'', ''maravilloso'',
     ''fantastico'', ''sobresaliente'', ''impresionado'', ''satisfecho'', ''love'', ''adoro'',
     ''me encanta'', ''fant'' @ [char_of (225::nat)] @ ''stico'', ''fabuloso'', ''me gusta'',
     ''bien'', ''obra'']"

definition negative_words :: "string list" where
  "negative_words =
    [''hate'', ''terrible'', ''awful'', ''horrible'', ''bad'', ''poor'', ''worst'',
     ''disappointed'', ''frustrated'', ''angry'', ''annoyed'', ''upset'', ''problem'',
     ''issue'', ''bug'', ''slow'', ''expensive'', ''difficult'', ''fail'', ''cancel'',
     ''doubt'', ''concern'', ''worried'', ''unsure'', ''alternative'', ''competitor'',
     ''odio'', ''terrible'', ''horrible'', ''malo'', ''peor'', ''problema'', ''bugs'',
     ''caro'', ''lento'', ''dif'' @ [char_of (237::nat)] @ ''cil'', ''fracaso'', ''cancelar'',
     ''competencia'', ''competidor'', ''preocupacion'', ''inquietud'', ''alternativa'',
     ''dudoso'', ''cambiar'', ''adios'', ''adi'' @ [char_of (243::nat)] @ ''s'',
     ''otros developers'', ''m'' @ [char_of (225::nat)] @ ''s barato'',
     ''renunciar'', ''renuncia'', ''renuncie'', ''partir'', ''irme'', ''me voy'',
     ''dejar'', ''abandonar'', ''salir'', ''terminar'', ''fin'', ''otro trabajo'',
     ''mejor oferta'', ''buscar'', ''explorar'', ''mejores'', ''mejores roles'']"

text \<open>
  The lexicons are Python sets: the literal's repeated words count once. \<open>count_hits\<close> is
  \<open>sum(1 for word in words if word in text_lower)\<close> over the set.
\<close>

definition count_hits :: "string list \<Rightarrow> string \<Rightarrow> nat" where
  "count_hits ws t = length (filter (\<lambda>w. occurs_in w t) (remdups ws))"

definition positive_count :: "string \<Rightarrow> nat" where
  "positive_count text_lower = count_hits positive_words text_lower"

definition negative_count :: "string \<Rightarrow> nat" where
  "negative_count text_lower = count_hits negative_words text_lower"

text \<open>
  \<open>_calculate_sentiment\<close>. The polarity of TextBlob, a library outside the repository, is
  the parameter \<open>polarity\<close>; it is applied to the text as given, not lower-cased. The
  argument is \<open>None\<close> for a missing text.
\<close>

definition calculate_sentiment :: "(string \<Rightarrow> real) \<Rightarrow> string option \<Rightarrow> real" where
  "calculate_sentiment polarity text =
     (case text of
        None \<Rightarrow> 50
      | Some t \<Rightarrow>
          if t = [] then 50
          else
            let text_lower = lower t;
                keyword_score = 50 + real (positive_count text_lower) * 10
                                   - real (negative_count text_lower) * 10;
                textblob_score = (polarity t + 1) * 50;
                final_score = keyword_score * 0.7 + textblob_score * 0.3
            in min 100 (max 0 final_score))"


text \<open>
  Python's \<open>round\<close> rounds to the nearest value with the given number of decimals,
  ties to the even neighbour; \<open>f"{x:.0f}"\<close> prints the number rounded the same way.
\<close>

definition round_half_even :: "real \<Rightarrow> int" where
  "round_half_even x =
     (let f = \<lfloor>x\<rfloor>; d = x - of_int f
      in if d < 1 / 2 then f else if 1 / 2 < d then f + 1 else if even f then f else f + 1)"

definition py_round :: "real \<Rightarrow> nat \<Rightarrow> real" where
  "py_round x k = of_int (round_half_even (x * 10 ^ k)) / 10 ^ k"

definition fmt0 :: "real \<Rightarrow> string" where
  "fmt0 x = (if x < 0 then ''-'' else []) @ string_of_nat (nat (round_half_even \<bar>x\<bar>))"

datatype error = IndexError | TypeError

text \<open>
  A message is a bare string, a dict with the optional keys \<open>text\<close> and \<open>timestamp\<close>, or
  any other object, given by its \<open>str()\<close>.
\<close>

datatype message = Bare string | Obj "string option" "string option" | Other string

fun msg_text :: "message \<Rightarrow> string" where
  "msg_text (Obj t ts) = (case t of None \<Rightarrow> [] | Some s \<Rightarrow> s)"
| "msg_text (Bare s) = s"
| "msg_text (Other s) = s"

fun msg_timestamp :: "nat \<Rightarrow> message \<Rightarrow> string" where
  "msg_timestamp i (Obj t ts) =
     (case ts of None \<Rightarrow> ''Message '' @ string_of_nat (i + 1) | Some s \<Rightarrow> s)"
| "msg_timestamp i (Bare s) = ''Message '' @ string_of_nat (i + 1)"
| "msg_timestamp i (Other s) = ''Message '' @ string_of_nat (i + 1)"

definition sentiment_state :: "real \<Rightarrow> string" where
  "sentiment_state score =
     (if score \<ge> 80 then ''EXTREMELY_POSITIVE''
      else if score \<ge> 60 then ''POSITIVE''
      else if score \<ge> 40 then ''NEUTRAL''
      else if score \<ge> 20 then ''NEGATIVE''
      else ''EXTREMELY_NEGATIVE'')"

record scored_point =
  sp_timestamp :: string
  sp_text :: string
  sp_sentiment_score :: real
  sp_sentiment_state :: string
  sp_message_index :: nat

record turning_point =
  tp_index :: nat
  tp_timestamp :: string
  from_state :: string
  to_state :: string
  change_magnitude :: real
  severity :: string

record analysis =
  timeline :: "scored_point list"
  current_sentiment :: real
  initial_sentiment :: real
  trend :: string
  turning_points :: "turning_point list"
  overall_change :: real
  interpretation_text :: string
  message_count :: nat

definition calculate_trend :: "real list \<Rightarrow> string" where
  "calculate_trend sentiments =
     (if length sentiments < 2 then ''insufficient_data''
      else
        let h = length sentiments div 2;
            first_half = sum_list (take h sentiments) / real (max 1 h);
            second_half = sum_list (drop h sentiments) / real (max 1 (length sentiments - h));
            diff = second_half - first_half
        in if diff > 10 then ''IMPROVING''
           else if diff < - 10 then ''DECLINING''
           else ''STABLE'')"

text \<open>
  \<open>_find_turning_points\<close>: the loop \<open>for i in range(1, len(sentiments))\<close>, the list of
  indices still to visit as third argument. \<open>timeline[i]\<close> raises IndexError beyond the
  timeline's end.
\<close>

fun turning_points_loop ::
  "real list \<Rightarrow> scored_point list \<Rightarrow> nat list \<Rightarrow> turning_point list
     \<Rightarrow> error + turning_point list" where
  "turning_points_loop sentiments tline [] acc = Inr acc"
| "turning_points_loop sentiments tline (i # rest) acc =
     (let change = \<bar>sentiments ! i - sentiments ! (i - 1)\<bar>
      in if change > 20 then
           (if i < length tline then
              turning_points_loop sentiments tline rest
                (acc @ [\<lparr>tp_index = i,
                          tp_timestamp = sp_timestamp (tline ! i),
                          from_state = sentiment_state (sentiments ! (i - 1)),
                          to_state = sentiment_state (sentiments ! i),
                          change_magnitude = py_round change 2,
                          severity = (if change > 40 then ''CRITICAL''
                                      else if change > 30 then ''HIGH'' else ''MEDIUM'')\<rparr>])
            else Inl IndexError)
         else turning_points_loop sentiments tline rest acc)"

definition find_turning_points ::
  "real list \<Rightarrow> scored_point list \<Rightarrow> error + turning_point list" where
  "find_turning_points sentiments tline =
     turning_points_loop sentiments tline [1 ..< length sentiments] []"

definition generate_interpretation :: "real list \<Rightarrow> string \<Rightarrow> turning_point list \<Rightarrow> string" where
  "generate_interpretation sentiments tr tps =
     (if sentiments = [] then ''No messages to analyze.''
      else
        let current = last sentiments;
            initial = hd sentiments;
            base = (if tr = ''DECLINING'' then
                      ''Sentiment is DECLINING overall (from '' @ fmt0 initial @ '' to ''
                        @ fmt0 current @ '')''
                    else if tr = ''IMPROVING'' then
                      ''Sentiment is IMPROVING overall (from '' @ fmt0 initial @ '' to ''
                        @ fmt0 current @ '')''
                    else ''Sentiment is STABLE (around '' @ fmt0 current @ '')'');
            critical_points = filter (\<lambda>p. severity p = ''CRITICAL'') tps;
            base = (if tps \<noteq> [] \<and> critical_points \<noteq> [] then
                      base @ ''. WARNING: '' @ string_of_nat (length critical_points)
                        @ '' critical sentiment shift(s) detected.''
                    else base)
        in if current < 30 then
             base @ '' RISK LEVEL: CRITICAL - Immediate intervention recommended.''
           else if current < 50 then base @ '' RISK LEVEL: HIGH - Attention needed soon.''
           else if current > 70 then base @ '' Status: POSITIVE - No immediate action needed.''
           else base)"

definition empty_analysis :: analysis where
  "empty_analysis =
     \<lparr>timeline = [], current_sentiment = 0, initial_sentiment = 0, trend = ''unknown'',
      turning_points = [], overall_change = 0, interpretation_text = ''No data provided'',
      message_count = 0\<rparr>"

text \<open>
  The scoring loop of \<open>analyze_evolution\<close>: \<open>i\<close> is the index of the next message,
  \<open>tline\<close> and \<open>sentiments\<close> are the two lists built so far.
\<close>

fun evolution_loop ::
  "(string \<Rightarrow> real) \<Rightarrow> nat \<Rightarrow> message list \<Rightarrow> scored_point list \<Rightarrow> real list
     \<Rightarrow> scored_point list \<times> real list" where
  "evolution_loop polarity i [] tline sentiments = (tline, sentiments)"
| "evolution_loop polarity i (msg # rest) tline sentiments =
     (let txt = msg_text msg;
          ts = msg_timestamp i msg;
          sentiment_score = calculate_sentiment polarity (Some txt)
      in evolution_loop polarity (i + 1) rest
           (tline @ [\<lparr>sp_timestamp = ts,
                    sp_text = (if length txt > 100 then take 100 txt @ ''...'' else txt),
                    sp_sentiment_score = py_round sentiment_score 2,
                    sp_sentiment_state = sentiment_state sentiment_score,
                    sp_message_index = i + 1\<rparr>])
           (sentiments @ [sentiment_score]))"

definition analyze_evolution :: "(string \<Rightarrow> real) \<Rightarrow> message list \<Rightarrow> error + analysis" where
  "analyze_evolution polarity messages =
     (if messages = [] then Inr empty_analysis
      else
        let (tline, sentiments) = evolution_loop polarity 0 messages [] [];
            tr = calculate_trend sentiments
        in case find_turning_points sentiments tline of
             Inl e \<Rightarrow> Inl e
           | Inr tps \<Rightarrow>
               let change = (if sentiments \<noteq> [] then last sentiments - hd sentiments else 0);
                   interp = generate_interpretation sentiments tr tps
               in Inr \<lparr>timeline = tline,
                       current_sentiment =
                         (if sentiments \<noteq> [] then py_round (last sentiments) 2 else 0),
                       initial_sentiment =
                         (if sentiments \<noteq> [] then py_round (hd sentiments) 2 else 0),
                       trend = tr,
                       turning_points = tps,
                       overall_change = py_round change 2,
                       interpretation_text = interp,
                       message_count = length messages\<rparr>)"


section \<open>Pattern detector\<close>

definition comparison_keywords :: "string list" where
  "comparison_keywords =
    [''competitor'', ''alternative'', ''better'', ''cheaper'', ''faster'',
     ''other'', ''someone else'', ''another'', ''different'', ''switch'',
     ''change'', ''similar'', ''compare'', ''versus'', ''instead'']"

definition frustration_keywords :: "string list" where
  "frustration_keywords =
    [''slow'', ''late'', ''delayed'', ''wait'', ''frustrated'', ''annoyed'',
     ''angry'', ''upset'', ''disappointed'', ''problem'', ''issue'', ''bug'',
     ''broken'', ''not working'', ''fail'', ''error'', ''impossible'']"

definition disengagement_keywords :: "string list" where
  "disengagement_keywords =
    [''cancel'', ''stop'', ''end'', ''quit'', ''leave'', ''exit'', ''goodbye'',
     ''farewell'', ''thanks anyway'', ''no thanks'', ''decline'', ''refuse'',
     ''not interested'', ''moving on'', ''consider'', ''think about'',
     ''evaluate'', ''looking at'']"

definition price_keywords :: "string list" where
  "price_keywords =
    [''expensive'', ''cost'', ''price'', ''cheap'', ''expensive'', ''fee'',
     ''charge'', ''budget'', ''discount'', ''negotiate'', ''lower'']"

text \<open>
  A check returns the dict of the first keyword of its list found in the text, or
  \<open>{'found': False}\<close>, here \<open>None\<close>.
\<close>

record signal_hit =
  sig_type :: string
  sig_text :: string
  sig_description :: string

definition check_keywords :: "string list \<Rightarrow> string \<Rightarrow> string \<Rightarrow> string \<Rightarrow> signal_hit option" where
  "check_keywords keywords ty descr txt =
     (case find (\<lambda>keyword. occurs_in keyword txt) keywords of
        None \<Rightarrow> None
      | Some keyword \<Rightarrow> Some \<lparr>sig_type = ty, sig_text = keyword, sig_description = descr\<rparr>)"

definition check_comparisons :: "string \<Rightarrow> signal_hit option" where
  "check_comparisons txt =
     check_keywords comparison_keywords ''COMPETITOR_COMPARISON''
       ''Comparing with alternatives or competitors'' txt"

definition check_frustration :: "string \<Rightarrow> signal_hit option" where
  "check_frustration txt =
     check_keywords frustration_keywords ''FRUSTRATION''
       ''Expressing dissatisfaction or frustration'' txt"

definition check_disengagement :: "string \<Rightarrow> signal_hit option" where
  "check_disengagement txt =
     check_keywords disengagement_keywords ''DISENGAGEMENT''
       ''Showing intent to leave or end relationship'' txt"

definition check_price :: "string \<Rightarrow> signal_hit option" where
  "check_price txt =
     check_keywords price_keywords ''PRICE_CONCERN''
       ''Mentioning cost or pricing concerns'' txt"

definition assess_risk_level :: "nat \<Rightarrow> string" where
  "assess_risk_level risk_score =
     (if risk_score \<ge> 70 then ''CRITICAL''
      else if risk_score \<ge> 50 then ''HIGH''
      else if risk_score \<ge> 30 then ''MEDIUM''
      else ''LOW'')"

record signal_entry =
  se_message_index :: nat
  se_timestamp :: string
  se_signals :: "signal_hit list"
  se_risk_score :: nat

text \<open>
  The variables of one pass through the loop body of \<open>detect_signals\<close>, and the
  variables of the loop.
\<close>

record msg_state =
  msg_signals :: "signal_hit list"
  msg_risk :: nat
  ms_key_phrases :: "string list"
  ms_breaking_point :: "nat option"

record det_state =
  signals :: "signal_entry list"
  risk_scores :: "nat list"
  breaking_point :: "nat option"
  key_phrases :: "string list"

definition comparison_branch :: "nat \<Rightarrow> signal_hit option \<Rightarrow> msg_state \<Rightarrow> msg_state" where
  "comparison_branch i comparison_signal s =
     (case comparison_signal of
        None \<Rightarrow> s
      | Some hit \<Rightarrow>
          \<lparr>msg_signals = msg_signals s @ [hit],
           msg_risk = msg_risk s + 25,
           ms_key_phrases = ms_key_phrases s @ [sig_text hit],
           ms_breaking_point =
             (if ms_breaking_point s = None then Some (i + 1) else ms_breaking_point s)\<rparr>)"

definition frustration_branch :: "nat \<Rightarrow> signal_hit option \<Rightarrow> msg_state \<Rightarrow> msg_state" where
  "frustration_branch i frustration_signal s =
     (case frustration_signal of
        None \<Rightarrow> s
      | Some hit \<Rightarrow>
          \<lparr>msg_signals = msg_signals s @ [hit],
           msg_risk = msg_risk s + 30,
           ms_key_phrases = ms_key_phrases s @ [sig_text hit],
           ms_breaking_point =
             (if ms_breaking_point s = None \<and> msg_risk s + 30 > 30 then Some (i + 1)
              else ms_breaking_point s)\<rparr>)"

definition disengagement_branch :: "nat \<Rightarrow> signal_hit option \<Rightarrow> msg_state \<Rightarrow> msg_state" where
  "disengagement_branch i disengagement_signal s =
     (case disengagement_signal of
        None \<Rightarrow> s
      | Some hit \<Rightarrow>
          \<lparr>msg_signals = msg_signals s @ [hit],
           msg_risk = msg_risk s + 35,
           ms_key_phrases = ms_key_phrases s @ [sig_text hit],
           ms_breaking_point =
             (if ms_breaking_point s = None then Some (i + 1) else ms_breaking_point s)\<rparr>)"

definition price_branch :: "signal_hit option \<Rightarrow> msg_state \<Rightarrow> msg_state" where
  "price_branch price_signal s =
     (case price_signal of
        None \<Rightarrow> s
      | Some hit \<Rightarrow>
          s\<lparr>msg_signals := msg_signals s @ [hit],
            msg_risk := msg_risk s + 20,
            ms_key_phrases := ms_key_phrases s @ [sig_text hit]\<rparr>)"

definition process_message :: "nat \<Rightarrow> message \<Rightarrow> det_state \<Rightarrow> det_state" where
  "process_message i msg st =
     (let txt = lower (msg_text msg);
          ts = msg_timestamp i msg;
          s0 = \<lparr>msg_signals = [], msg_risk = 0, ms_key_phrases = key_phrases st,
                ms_breaking_point = breaking_point st\<rparr>;
          s1 = comparison_branch i (check_comparisons txt) s0;
          s2 = frustration_branch i (check_frustration txt) s1;
          s3 = disengagement_branch i (check_disengagement txt) s2;
          s4 = price_branch (check_price txt) s3
      in if msg_signals s4 \<noteq> [] then
           \<lparr>signals = signals st @
                [\<lparr>se_message_index = i + 1, se_timestamp = ts,
                  se_signals = msg_signals s4, se_risk_score = min 100 (msg_risk s4)\<rparr>],
            risk_scores = risk_scores st @ [msg_risk s4],
            breaking_point = ms_breaking_point s4,
            key_phrases = ms_key_phrases s4\<rparr>
         else
           st\<lparr>breaking_point := ms_breaking_point s4, key_phrases := ms_key_phrases s4\<rparr>)"

fun detect_loop :: "nat \<Rightarrow> message list \<Rightarrow> det_state \<Rightarrow> det_state" where
  "detect_loop i [] st = st"
| "detect_loop i (msg # rest) st = detect_loop (i + 1) rest (process_message i msg st)"

text \<open>
  The recommendations are fixed sentences (one carries the breaking point); the model
  names them. The entries of \<open>signals\<close> have the keys \<open>message_index\<close>, \<open>timestamp\<close>,
  \<open>signals\<close> and \<open>risk_score\<close>, so \<open>s.get('type')\<close> is \<open>None\<close> for each of them.
\<close>

datatype recommendation =
    UrgentIntervention | BreakingPointDetected nat
  | ContactCustomer | PrepareRetentionOffer | EscalateAccountManager
  | ScheduleOneOnOne | IdentifyRootCauseOfDissatisfaction | PrepareRetentionPlan
  | PrepareDetailedResponse | ScheduleFollowUpMeeting
  | CounterCompetitiveThreats | ReviewPricingStrategy

definition entry_get_type :: "signal_entry \<Rightarrow> string option" where
  "entry_get_type s = None"

definition generate_recommendations ::
  "string \<Rightarrow> string \<Rightarrow> signal_entry list \<Rightarrow> nat option \<Rightarrow> recommendation list" where
  "generate_recommendations context risk_level sigs bp =
     (let r1 = (if risk_level = ''CRITICAL'' then
                  [UrgentIntervention] @
                  (case bp of None \<Rightarrow> []
                   | Some n \<Rightarrow> if n \<noteq> 0 then [BreakingPointDetected n] else [])
                else []);
          r2 = (if context = ''customer'' then
                  (if risk_level \<in> set [''CRITICAL'', ''HIGH''] then
                     [ContactCustomer, PrepareRetentionOffer, EscalateAccountManager]
                   else [])
                else if context = ''employee'' then
                  (if risk_level \<in> set [''CRITICAL'', ''HIGH''] then
                     [ScheduleOneOnOne, IdentifyRootCauseOfDissatisfaction, PrepareRetentionPlan]
                   else [])
                else if context = ''investor'' then
                  (if risk_level \<in> set [''CRITICAL'', ''HIGH''] then
                     [PrepareDetailedResponse, ScheduleFollowUpMeeting]
                   else [])
                else []);
          r3 = (if list_ex (\<lambda>s. entry_get_type s = Some ''COMPETITOR_COMPARISON'') sigs
                then [CounterCompetitiveThreats] else []);
          r4 = (if list_ex (\<lambda>s. entry_get_type s = Some ''PRICE_CONCERN'') sigs
                then [ReviewPricingStrategy] else [])
      in take 5 (r1 @ r2 @ r3 @ r4))"

text \<open>
  The result of \<open>detect_signals\<close> is a dict: an association list from key to value.
  \<open>list(set(key_phrases))\<close> keeps each phrase once, in an order Python leaves open; the
  model keeps the order of first appearance.
\<close>

datatype dval =
    VEntries "signal_entry list" | VStr string | VNat nat | VOptNat "nat option"
  | VStrs "string list" | VRecs "recommendation list"

type_synonym result_dict = "(string \<times> dval) list"

definition empty_signals :: result_dict where
  "empty_signals =
     [(''signals'', VEntries []),
      (''risk_level'', VStr ''UNKNOWN''),
      (''confidence'', VNat 0),
      (''breaking_point'', VOptNat None),
      (''key_phrases'', VStrs []),
      (''recommendations'', VRecs [])]"

definition detect_signals :: "message list \<Rightarrow> string \<Rightarrow> result_dict" where
  "detect_signals messages context =
     (if messages = [] then empty_signals
      else
        let st = detect_loop 0 messages
                   \<lparr>signals = [], risk_scores = [], breaking_point = None, key_phrases = []\<rparr>;
            overall_risk = (if risk_scores st \<noteq> [] then Max (set (risk_scores st)) else 0);
            risk_level = assess_risk_level overall_risk;
            recommendations =
              generate_recommendations context risk_level (signals st) (breaking_point st)
        in [(''signals'', VEntries (signals st)),
            (''risk_level'', VStr risk_level),
            (''confidence'', VNat (min 100 (length (signals st) * 15))),
            (''breaking_point'', VOptNat (breaking_point st)),
            (''key_phrases'', VStrs (take 5 (remdups (key_phrases st)))),
            (''recommendations'', VRecs recommendations),
            (''total_risk_score'', VNat (min 100 overall_risk))])"

text \<open>Reading a dict: its keys, and the value under a key (\<open>None\<close> when the key is absent).\<close>

definition keys :: "result_dict \<Rightarrow> string list" where
  "keys d = map fst d"

definition get_nat :: "result_dict \<Rightarrow> string \<Rightarrow> nat option" where
  "get_nat d k = (case map_of d k of Some (VNat n) \<Rightarrow> Some n | _ \<Rightarrow> None)"

definition get_str :: "result_dict \<Rightarrow> string \<Rightarrow> string option" where
  "get_str d k = (case map_of d k of Some (VStr s) \<Rightarrow> Some s | _ \<Rightarrow> None)"

definition get_breaking_point :: "result_dict \<Rightarrow> nat option" where
  "get_breaking_point d =
     (case map_of d ''breaking_point'' of Some (VOptNat b) \<Rightarrow> b | _ \<Rightarrow> None)"


section \<open>Risk predictor\<close>

definition churn_indicators :: "string list" where
  "churn_indicators =
    [''cancel'', ''leave'', ''stop'', ''switch'', ''competitor'', ''alternative'',
     ''expensive'', ''slow'', ''disappointed'', ''problem'', ''issue'']"

definition resolution_indicators :: "string list" where
  "resolution_indicators =
    [''understand'', ''sorry'', ''appreciate'', ''help'', ''support'', ''solution'',
     ''fix'', ''improve'', ''better'', ''thanks'']"

definition score_indicators :: "string list \<Rightarrow> string \<Rightarrow> nat" where
  "score_indicators indicators txt =
     min 100 (fold (\<lambda>indicator score. if occurs_in indicator txt then score + 15 else score)
                indicators 0)"

definition score_churn_risk :: "string \<Rightarrow> nat" where
  "score_churn_risk txt = score_indicators churn_indicators txt"

definition score_resolution_likelihood :: "string \<Rightarrow> nat" where
  "score_resolution_likelihood txt = score_indicators resolution_indicators txt"

definition predict_primary_action :: "real \<Rightarrow> string \<Rightarrow> nat \<Rightarrow> nat \<Rightarrow> string \<Rightarrow> string" where
  "predict_primary_action current tr churn_score resolution_score context =
     (if churn_score > 50 \<and> current < 40 then ''LIKELY_CHURN''
      else if resolution_score > 50 \<and> tr = ''IMPROVING'' then ''LIKELY_RESOLUTION''
      else if current > 50 \<and> tr \<noteq> ''DECLINING'' then ''LIKELY_STAY''
      else if current < 30 \<and> tr = ''DECLINING'' then ''ESCALATION_NEEDED''
      else ''MONITOR_CLOSELY'')"

definition calculate_confidence :: "real list \<Rightarrow> nat \<Rightarrow> nat \<Rightarrow> real" where
  "calculate_confidence sentiments churn_score resolution_score =
     (let n = length sentiments;
          c0 = (50 :: real);
          c1 = (if n \<ge> 5 then c0 + 20 else if n \<ge> 3 then c0 + 10 else c0);
          c2 = (if n \<ge> 3 then
                  c1 + min 20 (\<bar>sum_list (drop (n - 2) sentiments) - sum_list (take 2 sentiments)\<bar>
                               / real n)
                else c1);
          c3 = (if max churn_score resolution_score > 60 then c2 + 15 else c2)
      in min 100 c3)"

definition predict_timeline :: "string \<Rightarrow> real \<Rightarrow> nat \<Rightarrow> string \<Rightarrow> string" where
  "predict_timeline tr current churn_score context =
     (if current < 20 \<and> churn_score > 80 then ''IMMEDIATE (0-24 hours)''
      else if tr = ''DECLINING'' \<and> churn_score > 60 then ''VERY_SOON (1-3 days)''
      else if churn_score > 50 \<or> current < 40 then ''SOON (3-7 days)''
      else if current < 50 then ''MEDIUM_TERM (1-4 weeks)''
      else ''EXTENDED (1-3 months)'')"

definition assess_urgency :: "real \<Rightarrow> nat \<Rightarrow> string \<Rightarrow> string" where
  "assess_urgency current churn_score act =
     (if current < 20 \<or> churn_score > 80 \<or> act = ''LIKELY_CHURN'' then ''CRITICAL''
      else if current < 40 \<or> churn_score > 60 \<or> act = ''ESCALATION_NEEDED'' then ''HIGH''
      else if current < 50 \<or> churn_score > 40 then ''MEDIUM''
      else ''LOW'')"

text \<open>The interventions are fixed sentences as well.\<close>

datatype intervention =
    ImmediateOutreach | PrepareRetentionOfferNow | EscalateSeniorManagement
  | ScheduleUrgentMeeting | IdentifyRootCause | PrepareSolutionOptions
  | PrepareResolutionProposal | ScheduleFollowUp
  | OfferPrioritySupport | ConsiderSpecialPricing
  | ScheduleHRMeeting | AssessJobSatisfaction

definition generate_interventions :: "string \<Rightarrow> string \<Rightarrow> string \<Rightarrow> real \<Rightarrow> intervention list" where
  "generate_interventions act context urg sentiment =
     (let a = (if act = ''LIKELY_CHURN'' then
                 [ImmediateOutreach, PrepareRetentionOfferNow, EscalateSeniorManagement]
               else if act = ''ESCALATION_NEEDED'' then
                 [ScheduleUrgentMeeting, IdentifyRootCause, PrepareSolutionOptions]
               else if act = ''LIKELY_RESOLUTION'' then
                 [PrepareResolutionProposal, ScheduleFollowUp]
               else []);
          c = (if context = ''customer'' then
                 (if urg \<in> set [''CRITICAL'', ''HIGH''] then
                    [OfferPrioritySupport, ConsiderSpecialPricing] else [])
               else if context = ''employee'' then
                 (if urg \<in> set [''CRITICAL'', ''HIGH''] then
                    [ScheduleHRMeeting, AssessJobSatisfaction] else [])
               else [])
      in take 4 (a @ c))"

definition urgency_map :: "(string \<times> int) list" where
  "urgency_map = [(''CRITICAL'', - 20), (''HIGH'', - 10), (''MEDIUM'', 0), (''LOW'', 10)]"

definition action_map :: "(string \<times> int) list" where
  "action_map =
     [(''LIKELY_RESOLUTION'', 20), (''LIKELY_STAY'', 15), (''MONITOR_CLOSELY'', 5),
      (''ESCALATION_NEEDED'', - 5), (''LIKELY_CHURN'', - 15)]"

definition get_or :: "(string \<times> int) list \<Rightarrow> string \<Rightarrow> int \<Rightarrow> int" where
  "get_or m k d = (case map_of m k of None \<Rightarrow> d | Some v \<Rightarrow> v)"

definition calculate_intervention_success :: "string \<Rightarrow> string \<Rightarrow> string \<Rightarrow> int" where
  "calculate_intervention_success context urg act =
     (let b0 = 60 + get_or urgency_map urg 0;
          b1 = b0 + get_or action_map act 0;
          b2 = (if context \<in> set [''customer'', ''employee''] then b1 + 10 else b1)
      in max 20 (min 95 b2))"

definition generate_explanation :: "string \<Rightarrow> real \<Rightarrow> string \<Rightarrow> nat \<Rightarrow> string" where
  "generate_explanation act sentiment tr churn_score =
     (let explanation = ''Based on current sentiment ('' @ fmt0 sentiment @ ''/100) and ''
                          @ lower tr @ '' trend, ''
      in if act = ''LIKELY_CHURN'' then
           explanation @ ''the subject shows strong churn indicators (''
             @ string_of_nat churn_score @ ''/100). ''
             @ ''Immediate action strongly recommended to prevent departure.''
         else if act = ''LIKELY_RESOLUTION'' then
           explanation @ ''the situation appears to be resolving. ''
             @ ''Continue supportive approach and follow up soon.''
         else if act = ''LIKELY_STAY'' then
           explanation @ ''the relationship appears stable. ''
             @ ''Maintain current level of service and monitor for changes.''
         else if act = ''ESCALATION_NEEDED'' then
           explanation @ ''the situation has deteriorated significantly. ''
             @ ''Escalation and intervention are necessary.''
         else explanation @ ''signals are mixed. Continue monitoring closely.'')"

record trajectory =
  tr_initial :: real
  tr_current :: real
  tr_trend :: string
  tr_overall_change :: real

text \<open>
  The prediction dict; \<open>sentiment_trajectory\<close> is \<open>None\<close> where the dict has no such key.
\<close>

record prediction =
  action :: string
  confidence :: real
  timeline_bucket :: string
  urgency :: string
  interventions :: "intervention list"
  success_rate :: real
  explanation :: string
  sentiment_trajectory :: "trajectory option"

definition empty_prediction :: prediction where
  "empty_prediction =
     \<lparr>action = ''UNKNOWN'', confidence = 0, timeline_bucket = ''UNKNOWN'',
      urgency = ''UNKNOWN'', interventions = [], success_rate = 0,
      explanation = ''No data provided'', sentiment_trajectory = None\<rparr>"

text \<open>
  \<open>' '.join\<close> of the texts of the final messages. An item that is neither a dict nor a
  string is passed to \<open>join\<close> as it is, which raises TypeError.
\<close>

fun final_part :: "message \<Rightarrow> error + string" where
  "final_part (Obj t ts) = Inr (case t of None \<Rightarrow> [] | Some s \<Rightarrow> s)"
| "final_part (Bare s) = Inr s"
| "final_part (Other s) = Inl TypeError"

fun collect_parts :: "message list \<Rightarrow> error + string list" where
  "collect_parts [] = Inr []"
| "collect_parts (m # ms) =
     (case final_part m of
        Inl e \<Rightarrow> Inl e
      | Inr p \<Rightarrow> (case collect_parts ms of Inl e \<Rightarrow> Inl e | Inr ps \<Rightarrow> Inr (p # ps)))"

fun join_space :: "string list \<Rightarrow> string" where
  "join_space [] = []"
| "join_space [p] = p"
| "join_space (p # q # ps) = p @ '' '' @ join_space (q # ps)"

definition final_messages :: "message list \<Rightarrow> message list" where
  "final_messages messages =
     (if length messages \<ge> 3 then drop (length messages - 3) messages else messages)"

definition predict_action :: "(string \<Rightarrow> real) \<Rightarrow> message list \<Rightarrow> string \<Rightarrow> error + prediction" where
  "predict_action polarity messages context =
     (if messages = [] then Inr empty_prediction
      else
        case analyze_evolution polarity messages of
          Inl e \<Rightarrow> Inl e
        | Inr sentiment_data \<Rightarrow>
            let sentiments = map sp_sentiment_score (timeline sentiment_data);
                current = current_sentiment sentiment_data;
                tr = trend sentiment_data
            in case collect_parts (final_messages messages) of
                 Inl e \<Rightarrow> Inl e
               | Inr parts \<Rightarrow>
                   let final_text = lower (join_space parts);
                       churn_score = score_churn_risk final_text;
                       resolution_score = score_resolution_likelihood final_text;
                       act = predict_primary_action current tr churn_score resolution_score
                               context;
                       conf = calculate_confidence sentiments churn_score resolution_score;
                       tb = predict_timeline tr current churn_score context;
                       urg = assess_urgency current churn_score act;
                       ivs = generate_interventions act context urg current;
                       sr = calculate_intervention_success context urg act;
                       expl = generate_explanation act current tr churn_score
                   in Inr \<lparr>action = act,
                           confidence = py_round conf 1,
                           timeline_bucket = tb,
                           urgency = urg,
                           interventions = ivs,
                           success_rate = py_round (real_of_int sr) 1,
                           explanation = expl,
                           sentiment_trajectory =
                             Some \<lparr>tr_initial = initial_sentiment sentiment_data,
                                   tr_current = current,
                                   tr_trend = tr,
                                   tr_overall_change = overall_change sentiment_data\<rparr>\<rparr>)"


section \<open>Notions of the specification\<close>

text \<open>
  The per-message risk contribution in the specification's words: each signal type that
  fires adds its weight (comparison 25, frustration 30, disengagement 35, price 20), the
  sum capped at 100.
\<close>

definition message_contribution :: "string \<Rightarrow> nat" where
  "message_contribution txt =
     min 100 ((if check_comparisons txt \<noteq> None then 25 else 0)
              + (if check_frustration txt \<noteq> None then 30 else 0)
              + (if check_disengagement txt \<noteq> None then 35 else 0)
              + (if check_price txt \<noteq> None then 20 else 0))"

text \<open>
  A message qualifies as breaking point in the specification's words: it triggers a
  comparison or a disengagement signal, or a frustration signal when its contribution
  accumulated up to the frustration check (the comparison weight, if any, and the
  frustration weight) exceeds 30.
\<close>

definition contribution_at_frustration :: "string \<Rightarrow> nat" where
  "contribution_at_frustration txt = (if check_comparisons txt \<noteq> None then 25 else 0) + 30"

definition qualifies :: "string \<Rightarrow> bool" where
  "qualifies txt \<longleftrightarrow>
     check_comparisons txt \<noteq> None \<or> check_disengagement txt \<noteq> None
     \<or> (check_frustration txt \<noteq> None \<and> contribution_at_frustration txt > 30)"

text \<open>
  A sample polarity estimator with values in \<open>[-1, 1]\<close>: it rates a text that has the
  word "fine" as fully positive, any other as fully negative.
\<close>

definition sample_polarity :: "string \<Rightarrow> real" where
  "sample_polarity t = (if occurs_in ''fine'' (lower t) then 1 else - 1)"

section \<open>The trajectory analyzer always returns\<close>

lemma evolution_loop_lengths:
  "evolution_loop polarity i msgs tline ss = (tline', ss') \<Longrightarrow>
     length tline' = length tline + length msgs \<and> length ss' = length ss + length msgs"
proof (induction msgs arbitrary: i tline ss)
  case Nil
  then show ?case by simp
next
  case (Cons m ms)
  from Cons.prems show ?case
    by (auto simp: Let_def dest!: Cons.IH)
qed

lemma evolution_loop_sentiments:
  "snd (evolution_loop polarity i msgs tline ss) =
     ss @ map (\<lambda>m. calculate_sentiment polarity (Some (msg_text m))) msgs"
  by (induction msgs arbitrary: i tline ss) (simp_all add: Let_def)

lemma evolution_loop_scores:
  "map sp_sentiment_score (fst (evolution_loop polarity i msgs tline ss)) =
     map sp_sentiment_score tline
       @ map (\<lambda>m. py_round (calculate_sentiment polarity (Some (msg_text m))) 2) msgs"
  by (induction msgs arbitrary: i tline ss) (simp_all add: Let_def)

lemma turning_points_loop_total:
  "\<forall>i \<in> set todo. i < length tline \<Longrightarrow>
     \<exists>tps. turning_points_loop ss tline todo acc = Inr tps"
  by (induction todo arbitrary: acc) (simp_all add: Let_def)

lemma find_turning_points_total:
  "length ss \<le> length tline \<Longrightarrow> \<exists>tps. find_turning_points ss tline = Inr tps"
  unfolding find_turning_points_def
  by (rule turning_points_loop_total) auto

lemma analyze_evolution_unfold:
  assumes "messages \<noteq> []"
  shows "\<exists>tps. find_turning_points
                 (snd (evolution_loop polarity 0 messages [] []))
                 (fst (evolution_loop polarity 0 messages [] [])) = Inr tps
           \<and> analyze_evolution polarity messages =
               Inr \<lparr>timeline = fst (evolution_loop polarity 0 messages [] []),
                    current_sentiment =
                      py_round (last (snd (evolution_loop polarity 0 messages [] []))) 2,
                    initial_sentiment =
                      py_round (hd (snd (evolution_loop polarity 0 messages [] []))) 2,
                    trend = calculate_trend (snd (evolution_loop polarity 0 messages [] [])),
                    turning_points = tps,
                    overall_change =
                      py_round (last (snd (evolution_loop polarity 0 messages [] []))
                                 - hd (snd (evolution_loop polarity 0 messages [] []))) 2,
                    interpretation_text =
                      generate_interpretation (snd (evolution_loop polarity 0 messages [] []))
                        (calculate_trend (snd (evolution_loop polarity 0 messages [] []))) tps,
                    message_count = length messages\<rparr>"
proof -
  obtain tline ss where e: "evolution_loop polarity 0 messages [] [] = (tline, ss)"
    by (cases "evolution_loop polarity 0 messages [] []")
  from evolution_loop_lengths[OF e] have len: "length tline = length messages" "length ss = length messages"
    by simp_all
  then obtain tps where t: "find_turning_points ss tline = Inr tps"
    using find_turning_points_total[of ss tline] by auto
  from len assms have ne: "ss \<noteq> []" by auto
  show ?thesis
    using assms e t ne by (simp add: analyze_evolution_def Let_def)
qed

section \<open>Empty input\<close>

text \<open>
  Claim C7. For the empty message list, sentiment evolution analysis, risk-signal
  detection and action prediction each return their canonical result and raise nothing:
  the empty analysis (empty timeline, zero scores, trend "unknown"), the empty signals
  (risk level UNKNOWN, confidence 0, no breaking point) and the empty prediction (action
  UNKNOWN, confidence 0).
\<close>

theorem empty_input_canonical_results:
  "analyze_evolution polarity [] = Inr empty_analysis
   \<and> timeline empty_analysis = [] \<and> turning_points empty_analysis = []
   \<and> current_sentiment empty_analysis = 0 \<and> initial_sentiment empty_analysis = 0
   \<and> overall_change empty_analysis = 0 \<and> message_count empty_analysis = 0
   \<and> trend empty_analysis = ''unknown''
   \<and> detect_signals [] ctx = empty_signals
   \<and> get_str empty_signals ''risk_level'' = Some ''UNKNOWN''
   \<and> get_nat empty_signals ''confidence'' = Some 0
   \<and> get_breaking_point empty_signals = None
   \<and> predict_action polarity [] ctx = Inr empty_prediction
   \<and> action empty_prediction = ''UNKNOWN''
   \<and> confidence empty_prediction = 0
   \<and> interventions empty_prediction = []"
  by (simp add: analyze_evolution_def empty_analysis_def detect_signals_def empty_signals_def
        get_str_def get_nat_def get_breaking_point_def predict_action_def empty_prediction_def)

section \<open>Shape of the detector's result\<close>

lemma detect_signals_nonempty_keys:
  "messages \<noteq> [] \<Longrightarrow>
     keys (detect_signals messages ctx) =
       [''signals'', ''risk_level'', ''confidence'', ''breaking_point'', ''key_phrases'',
        ''recommendations'', ''total_risk_score'']"
  by (simp add: detect_signals_def keys_def Let_def)

lemma detect_signals_total_risk_score:
  "messages \<noteq> [] \<Longrightarrow>
     get_nat (detect_signals messages ctx) ''total_risk_score'' =
       Some (min 100 (let rs = risk_scores (detect_loop 0 messages
                \<lparr>signals = [], risk_scores = [], breaking_point = None, key_phrases = []\<rparr>)
              in if rs \<noteq> [] then Max (set rs) else 0))"
  by (simp add: detect_signals_def get_nat_def Let_def)

text \<open>
  Claim C10. The result of risk-signal detection for the empty list has exactly the keys
  signals, risk_level, confidence, breaking_point, key_phrases and recommendations, and
  no total_risk_score; the result for a non-empty list has the key total_risk_score, with
  a value between 0 and 100. The two shapes differ.
\<close>

theorem detect_signals_result_shape:
  "keys (detect_signals [] ctx) =
     [''signals'', ''risk_level'', ''confidence'', ''breaking_point'', ''key_phrases'',
      ''recommendations'']
   \<and> ''total_risk_score'' \<notin> set (keys (detect_signals [] ctx))
   \<and> get_nat (detect_signals [] ctx) ''total_risk_score'' = None
   \<and> (messages \<noteq> [] \<longrightarrow>
        ''total_risk_score'' \<in> set (keys (detect_signals messages ctx))
        \<and> (\<exists>n. get_nat (detect_signals messages ctx) ''total_risk_score'' = Some n
                 \<and> 0 \<le> n \<and> n \<le> 100)
        \<and> keys (detect_signals messages ctx) \<noteq> keys (detect_signals [] ctx))"
proof -
  have e: "keys (detect_signals [] ctx) =
     [''signals'', ''risk_level'', ''confidence'', ''breaking_point'', ''key_phrases'',
      ''recommendations'']"
    by (simp add: detect_signals_def empty_signals_def keys_def)
  have n: "get_nat (detect_signals [] ctx) ''total_risk_score'' = None"
    by (simp add: detect_signals_def empty_signals_def get_nat_def)
  show ?thesis
    using e n detect_signals_nonempty_keys[of messages ctx]
      detect_signals_total_risk_score[of messages ctx]
    by auto
qed

theorem detect_signals_result_shape_witness:
  "[Bare ''please cancel''] \<noteq> []
   \<and> ''total_risk_score'' \<in> set (keys (detect_signals [Bare ''please cancel''] ''customer''))
   \<and> get_nat (detect_signals [Bare ''please cancel''] ''customer'') ''total_risk_score'' = Some 35
   \<and> ''total_risk_score'' \<notin> set (keys (detect_signals [] ''customer''))"
proof -
  have v: "get_nat (detect_signals [Bare ''please cancel''] ''customer'') ''total_risk_score'' = Some 35"
    by code_simp
  show ?thesis
    using detect_signals_result_shape[of "''customer''" "[Bare ''please cancel'']"] v by simp
qed

section \<open>Action prediction\<close>

lemma collect_parts_Inr:
  "collect_parts ms = Inr ps \<Longrightarrow> ps = map msg_text ms"
proof (induction ms arbitrary: ps)
  case Nil
  then show ?case by simp
next
  case (Cons m ms)
  then show ?case
    by (cases m) (auto split: sum.splits option.splits)
qed

lemma collect_parts_total:
  "\<forall>m \<in> set ms. \<forall>s. m \<noteq> Other s \<Longrightarrow> collect_parts ms = Inr (map msg_text ms)"
proof (induction ms)
  case Nil
  then show ?case by simp
next
  case (Cons m ms)
  then show ?case by (cases m) (auto split: option.splits)
qed

lemma predict_action_Inr:
  assumes "messages \<noteq> []" and "predict_action polarity messages ctx = Inr r"
    and "analyze_evolution polarity messages = Inr a"
  shows "action r =
           predict_primary_action (current_sentiment a) (trend a)
             (score_churn_risk (lower (join_space (map msg_text (final_messages messages)))))
             (score_resolution_likelihood
                (lower (join_space (map msg_text (final_messages messages))))) ctx
         \<and> sentiment_trajectory r =
             Some \<lparr>tr_initial = initial_sentiment a, tr_current = current_sentiment a,
                   tr_trend = trend a, tr_overall_change = overall_change a\<rparr>"
proof -
  from assms obtain parts where p: "collect_parts (final_messages messages) = Inr parts"
    by (auto simp: predict_action_def Let_def split: sum.splits)
  then have "parts = map msg_text (final_messages messages)"
    by (rule collect_parts_Inr)
  with assms p show ?thesis
    by (auto simp: predict_action_def Let_def)
qed

lemma predict_action_total:
  assumes "messages \<noteq> []" and "\<forall>m \<in> set (final_messages messages). \<forall>s. m \<noteq> Other s"
  shows "\<exists>r. predict_action polarity messages ctx = Inr r"
proof -
  from analyze_evolution_unfold[OF assms(1), of polarity]
  obtain a where "analyze_evolution polarity messages = Inr a" by blast
  with assms collect_parts_total[OF assms(2)] show ?thesis
    by (simp add: predict_action_def Let_def)
qed

text \<open>
  Claim C4. For a non-empty message list, the action of the prediction is decided by the
  five rules in their order, the first that matches winning: churn score above 50 and
  current sentiment below 40 gives LIKELY_CHURN; resolution score above 50 and trend
  IMPROVING gives LIKELY_RESOLUTION; sentiment above 50 and trend not DECLINING gives
  LIKELY_STAY; sentiment below 30 and trend DECLINING gives ESCALATION_NEEDED; anything
  else MONITOR_CLOSELY. Sentiment and trend are those of the trajectory, the scores those
  of the joined text of the last three messages. The analysis always returns, and the
  prediction returns whenever the last three messages are strings or dicts.
\<close>

theorem predicted_action_rules:
  "messages \<noteq> [] \<longrightarrow>
     (\<exists>a. analyze_evolution polarity messages = Inr a
        \<and> ((\<forall>m \<in> set (final_messages messages). \<forall>s. m \<noteq> Other s)
              \<longrightarrow> (\<exists>r. predict_action polarity messages ctx = Inr r))
        \<and> (\<forall>r. predict_action polarity messages ctx = Inr r \<longrightarrow>
              (let sentiment = current_sentiment a;
                   tr = trend a;
                   final_text = lower (join_space (map msg_text (final_messages messages)));
                   churn_score = score_churn_risk final_text;
                   resolution_score = score_resolution_likelihood final_text
               in action r =
                    (if churn_score > 50 \<and> sentiment < 40 then ''LIKELY_CHURN''
                     else if resolution_score > 50 \<and> tr = ''IMPROVING'' then ''LIKELY_RESOLUTION''
                     else if sentiment > 50 \<and> tr \<noteq> ''DECLINING'' then ''LIKELY_STAY''
                     else if sentiment < 30 \<and> tr = ''DECLINING'' then ''ESCALATION_NEEDED''
                     else ''MONITOR_CLOSELY''))))"
proof
  assume ne: "messages \<noteq> []"
  from analyze_evolution_unfold[OF ne, of polarity]
  obtain a where a: "analyze_evolution polarity messages = Inr a" by blast
  have tot: "(\<forall>m \<in> set (final_messages messages). \<forall>s. m \<noteq> Other s)
              \<longrightarrow> (\<exists>r. predict_action polarity messages ctx = Inr r)"
    using predict_action_total[OF ne] by blast
  have rules: "\<forall>r. predict_action polarity messages ctx = Inr r \<longrightarrow>
              (let sentiment = current_sentiment a;
                   tr = trend a;
                   final_text = lower (join_space (map msg_text (final_messages messages)));
                   churn_score = score_churn_risk final_text;
                   resolution_score = score_resolution_likelihood final_text
               in action r =
                    (if churn_score > 50 \<and> sentiment < 40 then ''LIKELY_CHURN''
                     else if resolution_score > 50 \<and> tr = ''IMPROVING'' then ''LIKELY_RESOLUTION''
                     else if sentiment > 50 \<and> tr \<noteq> ''DECLINING'' then ''LIKELY_STAY''
                     else if sentiment < 30 \<and> tr = ''DECLINING'' then ''ESCALATION_NEEDED''
                     else ''MONITOR_CLOSELY''))"
  proof (intro allI impI)
    fix r assume r: "predict_action polarity messages ctx = Inr r"
    from predict_action_Inr[OF ne r a] show "let sentiment = current_sentiment a;
                   tr = trend a;
                   final_text = lower (join_space (map msg_text (final_messages messages)));
                   churn_score = score_churn_risk final_text;
                   resolution_score = score_resolution_likelihood final_text
               in action r =
                    (if churn_score > 50 \<and> sentiment < 40 then ''LIKELY_CHURN''
                     else if resolution_score > 50 \<and> tr = ''IMPROVING'' then ''LIKELY_RESOLUTION''
                     else if sentiment > 50 \<and> tr \<noteq> ''DECLINING'' then ''LIKELY_STAY''
                     else if sentiment < 30 \<and> tr = ''DECLINING'' then ''ESCALATION_NEEDED''
                     else ''MONITOR_CLOSELY'')"
      unfolding Let_def predict_primary_action_def by (rule conjunct1)
  qed
  from a tot rules show "\<exists>a. analyze_evolution polarity messages = Inr a
        \<and> ((\<forall>m \<in> set (final_messages messages). \<forall>s. m \<noteq> Other s)
              \<longrightarrow> (\<exists>r. predict_action polarity messages ctx = Inr r))
        \<and> (\<forall>r. predict_action polarity messages ctx = Inr r \<longrightarrow>
              (let sentiment = current_sentiment a;
                   tr = trend a;
                   final_text = lower (join_space (map msg_text (final_messages messages)));
                   churn_score = score_churn_risk final_text;
                   resolution_score = score_resolution_likelihood final_text
               in action r =
                    (if churn_score > 50 \<and> sentiment < 40 then ''LIKELY_CHURN''
                     else if resolution_score > 50 \<and> tr = ''IMPROVING'' then ''LIKELY_RESOLUTION''
                     else if sentiment > 50 \<and> tr \<noteq> ''DECLINING'' then ''LIKELY_STAY''
                     else if sentiment < 30 \<and> tr = ''DECLINING'' then ''ESCALATION_NEEDED''
                     else ''MONITOR_CLOSELY'')))"
    by blast
qed

theorem predicted_action_rules_witness:
  "[Bare ''slow and expensive, I will cancel and switch''] \<noteq> []
   \<and> (\<exists>r. predict_action (\<lambda>t. 0) [Bare ''slow and expensive, I will cancel and switch'']
              ''customer'' = Inr r
            \<and> action r = ''LIKELY_CHURN'')"
proof -
  let ?M = "[Bare ''slow and expensive, I will cancel and switch'']"
  have typed: "\<forall>m \<in> set (final_messages ?M). \<forall>s. m \<noteq> Other s"
    by (simp add: final_messages_def)
  have v: "action (projr (predict_action (\<lambda>t. 0) ?M ''customer'')) = ''LIKELY_CHURN''"
    by code_simp
  from predicted_action_rules[of ?M "\<lambda>t. 0" "''customer''"] typed
  obtain r where "predict_action (\<lambda>t. 0) ?M ''customer'' = Inr r" by auto
  with v typed show ?thesis by simp
qed

section \<open>Trajectory invariants\<close>

text \<open>
  Claim C6. For a non-empty message list the analysis returns a trajectory whose
  current_sentiment is the sentiment score of the last timeline entry, and whose trend is
  \<open>calculate_trend\<close> of the sequence of scores of the messages, so a function of that
  sequence alone. The prediction, the one reader of the trajectory, passes trend and
  current sentiment on unchanged.
\<close>

theorem trajectory_current_and_trend:
  "messages \<noteq> [] \<longrightarrow>
     (\<exists>a. analyze_evolution polarity messages = Inr a
        \<and> timeline a \<noteq> []
        \<and> current_sentiment a = sp_sentiment_score (last (timeline a))
        \<and> trend a =
            calculate_trend (map (\<lambda>m. calculate_sentiment polarity (Some (msg_text m))) messages)
        \<and> (\<forall>ctx r. predict_action polarity messages ctx = Inr r \<longrightarrow>
              (\<exists>t. sentiment_trajectory r = Some t \<and> tr_trend t = trend a
                    \<and> tr_current t = current_sentiment a)))"
proof
  assume ne: "messages \<noteq> []"
  let ?ss = "map (\<lambda>m. calculate_sentiment polarity (Some (msg_text m))) messages"
  let ?tl = "fst (evolution_loop polarity 0 messages [] [])"
  from analyze_evolution_unfold[OF ne, of polarity]
  obtain a tps where a: "analyze_evolution polarity messages = Inr a"
    and tl: "timeline a = ?tl"
    and cur: "current_sentiment a = py_round (last (snd (evolution_loop polarity 0 messages [] []))) 2"
    and tr: "trend a = calculate_trend (snd (evolution_loop polarity 0 messages [] []))"
    by force
  have ss: "snd (evolution_loop polarity 0 messages [] []) = ?ss"
    using evolution_loop_sentiments[of polarity 0 messages "[]" "[]"] by simp
  have sc: "map sp_sentiment_score ?tl = map (\<lambda>x. py_round x 2) ?ss"
    using evolution_loop_scores[of polarity 0 messages "[]" "[]"] by (simp add: comp_def)
  from sc ne have tlne: "?tl \<noteq> []" by auto
  have "sp_sentiment_score (last ?tl) = last (map sp_sentiment_score ?tl)"
    using tlne by (simp add: last_map)
  also have "\<dots> = py_round (last ?ss) 2"
    using ne by (simp add: sc last_map)
  finally have l: "sp_sentiment_score (last ?tl) = py_round (last ?ss) 2" .
  have p: "\<forall>ctx r. predict_action polarity messages ctx = Inr r \<longrightarrow>
              (\<exists>t. sentiment_trajectory r = Some t \<and> tr_trend t = trend a
                    \<and> tr_current t = current_sentiment a)"
    using predict_action_Inr[OF ne _ a] by auto
  from a tl cur tr ss l tlne p
  show "\<exists>a. analyze_evolution polarity messages = Inr a
        \<and> timeline a \<noteq> []
        \<and> current_sentiment a = sp_sentiment_score (last (timeline a))
        \<and> trend a = calculate_trend ?ss
        \<and> (\<forall>ctx r. predict_action polarity messages ctx = Inr r \<longrightarrow>
              (\<exists>t. sentiment_trajectory r = Some t \<and> tr_trend t = trend a
                    \<and> tr_current t = current_sentiment a))"
    by auto
qed

theorem trajectory_current_and_trend_witness:
  "[Bare ''I love this'', Bare ''bad awful slow problem bug''] \<noteq> []
   \<and> (\<exists>a. analyze_evolution (\<lambda>t. 0) [Bare ''I love this'', Bare ''bad awful slow problem bug'']
             = Inr a
          \<and> current_sentiment a = sp_sentiment_score (last (timeline a))
          \<and> current_sentiment a = 15
          \<and> trend a = ''DECLINING'')"
proof -
  let ?M = "[Bare ''I love this'', Bare ''bad awful slow problem bug'']"
  have c: "current_sentiment (projr (analyze_evolution (\<lambda>t. 0) ?M)) = 15"
    by code_simp
  have t: "trend (projr (analyze_evolution (\<lambda>t. 0) ?M)) = ''DECLINING''"
    by code_simp
  from trajectory_current_and_trend[of ?M "\<lambda>t. 0"]
  obtain a where "analyze_evolution (\<lambda>t. 0) ?M = Inr a"
    and "current_sentiment a = sp_sentiment_score (last (timeline a))"
    by auto
  with c t show ?thesis by simp
qed

end
